theory Spec2Isabelle
  imports Main
begin

section \<open>Python values used by post\_to\_slack.py\<close>

text \<open>
  A Python \<open>str\<close> is a sequence of Unicode code points, so it is modelled as a list of
  natural numbers. ASCII literals of the source are written \<open>u ''...''\<close>; the
  non-ASCII characters of the source are given by their code points.
\<close>

type_synonym ustr = "nat list"

definition u :: "string \<Rightarrow> ustr" where
  "u s = map of_char s"

definition slash :: nat where
  "slash = 47"

definition nl :: nat where
  "nl = 10"

text \<open>The non-ASCII characters of the source: lines 43--46, 88, 101 and 103.\<close>

definition emoji_folder :: nat where "emoji_folder = 128194"
definition emoji_check :: nat where "emoji_check = 9989"
definition emoji_shuffle :: nat where "emoji_shuffle = 128256"
definition emoji_memo :: nat where "emoji_memo = 128221"
definition emoji_cross :: nat where "emoji_cross = 10060"
definition em_dash :: nat where "em_dash = 8212"
definition right_arrow :: nat where "right_arrow = 8594"

text \<open>
  The exceptions that can reach the code. \<open>HTTPError\<close> is a subclass of \<open>URLError\<close>,
  which is a subclass of \<open>OSError\<close>; an \<open>except\<close> clause is modelled by matching on the
  constructor, in the order of the source.
\<close>

datatype exn =
    KeyError ustr
  | IndexError
  | AttributeError
  | TypeError
  | ValueError ustr
  | JSONDecodeError
  | OSError ustr
  | HTTPError int ustr
  | URLError ustr
  | HTTPException ustr

text \<open>
  The values \<open>json.loads\<close> can put into a dictionary. \<open>POther s\<close> stands for a float,
  a list or a nested dictionary whose \<open>str()\<close> text is \<open>s\<close>: like \<open>None\<close>, booleans
  and integers it has no \<open>split\<close> method.
\<close>

datatype pyval =
    PStr ustr
  | PInt int
  | PBool bool
  | PNone
  | POther ustr

text \<open>The result of \<open>json.loads\<close>: a dictionary, or a value that is not one.\<close>

datatype pyobj =
    PyDict "ustr \<rightharpoonup> pyval"
  | PyNonDict

subsection \<open>Exceptions as values\<close>

definition bind_exn :: "exn + 'a \<Rightarrow> ('a \<Rightarrow> exn + 'b) \<Rightarrow> exn + 'b" where
  "bind_exn m f = (case m of Inl e \<Rightarrow> Inl e | Inr x \<Rightarrow> f x)"

subsection \<open>\<open>str()\<close> of the values\<close>

definition digit_char :: "nat \<Rightarrow> nat" where
  "digit_char d = 48 + d"

function str_nat :: "nat \<Rightarrow> ustr" where
  "str_nat n = (if n < 10 then [digit_char n] else str_nat (n div 10) @ [digit_char (n mod 10)])"
  by pat_completeness auto
termination
  by (relation "measure (\<lambda>n. n)") auto

declare str_nat.simps [simp del]

definition str_int :: "int \<Rightarrow> ustr" where
  "str_int i = (if i < 0 then u ''-'' @ str_nat (nat (- i)) else str_nat (nat i))"

fun py_str :: "pyval \<Rightarrow> ustr" where
  "py_str (PStr s) = s"
| "py_str (PInt i) = str_int i"
| "py_str (PBool b) = (if b then u ''True'' else u ''False'')"
| "py_str PNone = u ''None''"
| "py_str (POther s) = s"

subsection \<open>Subscripting, \<open>str.split\<close>\<close>

text \<open>\<open>pr[key]\<close>: \<open>KeyError\<close> on a dictionary without the key, \<open>TypeError\<close> on a value
  that is not a dictionary.\<close>

fun getitem :: "pyobj \<Rightarrow> ustr \<Rightarrow> exn + pyval" where
  "getitem (PyDict m) k = (case m k of None \<Rightarrow> Inl (KeyError k) | Some v \<Rightarrow> Inr v)"
| "getitem PyNonDict k = Inl TypeError"

text \<open>\<open>s.split(sep)\<close> for a separator of one character: every occurrence separates, and
  the result has at least one element.\<close>

fun split_on :: "nat \<Rightarrow> ustr \<Rightarrow> ustr list" where
  "split_on c [] = [[]]"
| "split_on c (x # xs) =
     (if x = c then [] # split_on c xs
      else (let r = split_on c xs in (x # hd r) # tl r))"

fun py_split :: "pyval \<Rightarrow> nat \<Rightarrow> exn + ustr list" where
  "py_split (PStr s) c = Inr (split_on c s)"
| "py_split _ c = Inl AttributeError"

text \<open>\<open>xs[i]\<close> for a literal index \<open>i \<ge> 0\<close>.\<close>

definition py_index :: "'a list \<Rightarrow> nat \<Rightarrow> exn + 'a" where
  "py_index xs i = (if i < length xs then Inr (xs ! i) else Inl IndexError)"

section \<open>format\_message (lines 38--48)\<close>

text \<open>Line 41: \<open>repo_name = pr["url"].split("/")[4]\<close>.\<close>

definition repo_name :: "pyobj \<Rightarrow> exn + ustr" where
  "repo_name pr =
     bind_exn (getitem pr (u ''url'')) (\<lambda>url.
     bind_exn (py_split url slash) (\<lambda>segments.
     py_index segments 4))"

text \<open>Lines 42--48: the f-string, its fields evaluated from left to right.\<close>

definition format_message :: "pyobj \<Rightarrow> ustr \<Rightarrow> exn + ustr" where
  "format_message pr summary =
     bind_exn (repo_name pr) (\<lambda>repo_name.
     bind_exn (getitem pr (u ''number'')) (\<lambda>number.
     bind_exn (getitem pr (u ''url'')) (\<lambda>url.
     bind_exn (getitem pr (u ''title'')) (\<lambda>title.
     bind_exn (getitem pr (u ''headRefName'')) (\<lambda>headRefName.
     bind_exn (getitem pr (u ''baseRefName'')) (\<lambda>baseRefName.
     Inr (
       [emoji_folder] @ u '' *Repo*: '' @ repo_name @ [nl] @
       [emoji_check] @ u '' *PR #'' @ py_str number @ u '' Merged* '' @ [em_dash] @
         u '' <'' @ py_str url @ u ''|'' @ py_str title @ u ''>'' @ [nl] @
       [emoji_shuffle] @ u '' *Branch*: `'' @ py_str headRefName @ u ''` '' @ [right_arrow] @
         u '' `'' @ py_str baseRefName @ u ''`'' @ [nl] @
       [emoji_memo] @ u '' *Summary*:'' @ [nl] @
       u ''>'' @ summary)))))))"

section \<open>The message template of the specification\<close>

text \<open>
  The five lines of the literal template of the specification (section 6), written from
  the specification and compared with \<open>format_message\<close> below.
\<close>

definition template_lines :: "ustr \<Rightarrow> int \<Rightarrow> ustr \<Rightarrow> ustr \<Rightarrow> ustr \<Rightarrow> ustr \<Rightarrow> ustr \<Rightarrow> ustr list" where
  "template_lines repo number title url headRefName baseRefName summary =
     [ [emoji_folder] @ u '' *Repo*: '' @ repo,
       [emoji_check] @ u '' *PR #'' @ str_int number @ u '' Merged* '' @ [em_dash] @ u '' <'' @
         url @ u ''|'' @ title @ u ''>'',
       [emoji_shuffle] @ u '' *Branch*: `'' @ headRefName @ u ''` '' @ [right_arrow] @ u '' `'' @
         baseRefName @ u ''`'',
       [emoji_memo] @ u '' *Summary*:'',
       u ''>'' @ summary ]"

text \<open>Lines joined by newlines, with no newline after the last.\<close>

fun join_lines :: "ustr list \<Rightarrow> ustr" where
  "join_lines [] = []"
| "join_lines [l] = l"
| "join_lines (l # ls) = l @ [nl] @ join_lines ls"

section \<open>The environment and the effects of a run\<close>

text \<open>
  What the program does to the outside is recorded as a list of events, in order.
  \<open>Stdout s\<close> and \<open>Stderr s\<close> are calls of \<open>print\<close> with the text \<open>s\<close> (\<open>print\<close> adds the
  final newline), \<open>RunProcess cmd\<close> is the call of \<open>subprocess.run\<close>, \<open>ReadEnv k\<close> the
  lookup of \<open>k\<close> in \<open>os.environ\<close>, and \<open>HttpPost req\<close> the call of \<open>urlopen\<close>.
\<close>

text \<open>The bytes \<open>json.dumps(d).encode("utf-8")\<close>, kept as the dictionary \<open>d\<close> serialised.\<close>

datatype payload = JsonUtf8 "(ustr \<times> ustr) list"

record request =
  req_url :: ustr
  req_data :: payload
  req_headers :: "(ustr \<times> ustr) list"
  req_method :: ustr

record completed_process =
  returncode :: int
  stdout :: ustr
  stderr :: ustr

datatype event =
    RunProcess "ustr list"
  | Stdout ustr
  | Stderr ustr
  | ReadEnv ustr
  | HttpPost request

text \<open>
  The outside world, as the library calls of the program see it:
  \<open>subprocess.run\<close> (which may raise, for instance when the command is not installed),
  \<open>json.loads\<close>, \<open>os.environ\<close>, the constructor \<open>urllib.request.Request\<close> (which raises
  \<open>ValueError\<close> on a URL without a scheme) and \<open>urllib.request.urlopen\<close>, which returns a
  response with a status or raises.
\<close>

record world =
  subprocess_run :: "ustr list \<Rightarrow> exn + completed_process"
  json_loads :: "ustr \<Rightarrow> exn + pyobj"
  environ :: "ustr \<rightharpoonup> ustr"
  Request_raises :: "request \<Rightarrow> exn option"
  urlopen :: "request \<Rightarrow> exn + int"

text \<open>A computation ends with a value, with \<open>sys.exit\<close> or with an exception nobody caught.\<close>

datatype abort = SystemExit int | Uncaught exn

type_synonym 'a io = "event list \<times> (abort + 'a)"

definition return_io :: "'a \<Rightarrow> 'a io" where
  "return_io x = ([], Inr x)"

definition emit :: "event \<Rightarrow> unit io" where
  "emit e = ([e], Inr ())"

definition raise_io :: "exn \<Rightarrow> 'a io" where
  "raise_io e = ([], Inl (Uncaught e))"

definition sys_exit :: "int \<Rightarrow> 'a io" where
  "sys_exit n = ([], Inl (SystemExit n))"

definition lift_exn :: "exn + 'a \<Rightarrow> 'a io" where
  "lift_exn r = (case r of Inl e \<Rightarrow> raise_io e | Inr x \<Rightarrow> return_io x)"

definition bind_io :: "'a io \<Rightarrow> ('a \<Rightarrow> 'b io) \<Rightarrow> 'b io" where
  "bind_io m f =
     (case m of
        (t, Inl a) \<Rightarrow> (t, Inl a)
      | (t, Inr x) \<Rightarrow> (case f x of (t', r) \<Rightarrow> (t @ t', r)))"

definition then_io :: "unit io \<Rightarrow> 'b io \<Rightarrow> 'b io" where
  "then_io m k = bind_io m (\<lambda>_. k)"

text \<open>The exit status of the process: 0 on return, the argument of \<open>sys.exit\<close>, and 1
  after an uncaught exception.\<close>

definition exit_code :: "unit io \<Rightarrow> int" where
  "exit_code r =
     (case snd r of
        Inr _ \<Rightarrow> 0
      | Inl (SystemExit n) \<Rightarrow> n
      | Inl (Uncaught e) \<Rightarrow> 1)"

subsection \<open>Truthiness and \<open>str.strip\<close>\<close>

text \<open>\<open>if x:\<close> for \<open>x\<close> a string or \<open>None\<close>: false on \<open>None\<close> and on the empty string.\<close>

fun truthy :: "ustr option \<Rightarrow> bool" where
  "truthy None = False"
| "truthy (Some s) = (s \<noteq> [])"

text \<open>The characters \<open>str.strip()\<close> removes: those for which \<open>str.isspace\<close> holds.\<close>

definition is_space :: "nat \<Rightarrow> bool" where
  "is_space c =
     ((9 \<le> c \<and> c \<le> 13) \<or> (28 \<le> c \<and> c \<le> 32) \<or> c = 133 \<or> c = 160 \<or> c = 5760 \<or>
      (8192 \<le> c \<and> c \<le> 8202) \<or> c = 8232 \<or> c = 8233 \<or> c = 8239 \<or> c = 8287 \<or> c = 12288)"

definition py_strip :: "ustr \<Rightarrow> ustr" where
  "py_strip s = rev (dropWhile is_space (rev (dropWhile is_space s)))"

section \<open>fetch\_pr (lines 20--35)\<close>

text \<open>Lines 22--27: the command line, with \<open>--repo\<close> only for a repository that is
  neither \<open>None\<close> nor empty.\<close>

definition gh_command :: "int \<Rightarrow> ustr option \<Rightarrow> ustr list" where
  "gh_command pr_number repo =
     [u ''gh'', u ''pr'', u ''view'', str_int pr_number,
      u ''--json'', u ''number,title,url,headRefName,baseRefName,body''] @
     (case repo of
        None \<Rightarrow> []
      | Some r \<Rightarrow> if r \<noteq> [] then [u ''--repo'', r] else [])"

definition fetch_pr :: "world \<Rightarrow> int \<Rightarrow> ustr option \<Rightarrow> pyobj io" where
  "fetch_pr w pr_number repo =
     (let cmd = gh_command pr_number repo in
        bind_io (emit (RunProcess cmd)) (\<lambda>_.
        bind_io (lift_exn (subprocess_run w cmd)) (\<lambda>result.
        if returncode result \<noteq> 0 then
          then_io
            (emit (Stderr (u ''Error fetching PR #'' @ str_int pr_number @ u '': '' @
                           py_strip (stderr result))))
            (sys_exit 1)
        else lift_exn (json_loads w (stdout result)))))"

section \<open>post\_to\_slack (lines 51--71)\<close>

text \<open>Lines 60--71: the \<open>try\<close> statement around \<open>urlopen\<close>. An exception that neither
  \<open>except\<close> clause names goes on to the caller.\<close>

fun try_urlopen :: "exn + int \<Rightarrow> bool io" where
  "try_urlopen (Inr status) =
     (if status = 200 then return_io True
      else then_io (emit (Stderr (u ''Slack returned status '' @ str_int status)))
             (return_io False))"
| "try_urlopen (Inl (HTTPError code reason)) =
     then_io (emit (Stderr (u ''Slack webhook error: '' @ str_int code @ u '' '' @ reason)))
       (return_io False)"
| "try_urlopen (Inl (URLError reason)) =
     then_io (emit (Stderr (u ''Network error: '' @ reason))) (return_io False)"
| "try_urlopen (Inl e) = raise_io e"

text \<open>Lines 53--59: the request the function builds.\<close>

definition slack_request :: "ustr \<Rightarrow> ustr \<Rightarrow> request" where
  "slack_request webhook_url message =
     \<lparr> req_url = webhook_url,
       req_data = JsonUtf8 [(u ''text'', message)],
       req_headers = [(u ''Content-Type'', u ''application/json'')],
       req_method = u ''POST'' \<rparr>"

definition post_to_slack :: "world \<Rightarrow> ustr \<Rightarrow> ustr \<Rightarrow> bool io" where
  "post_to_slack w webhook_url message =
     (let req = slack_request webhook_url message in
      case Request_raises w req of
        Some e \<Rightarrow> raise_io e
      | None \<Rightarrow>
          bind_io (emit (HttpPost req)) (\<lambda>_. try_urlopen (urlopen w req)))"

section \<open>main (lines 74--106)\<close>

text \<open>The namespace \<open>parse_args\<close> returns.\<close>

record args =
  arg_pr_number :: int
  arg_summary :: ustr
  arg_repo :: "ustr option"
  arg_webhook_url :: "ustr option"
  arg_dry_run :: bool

definition env_key :: ustr where
  "env_key = u ''SLACK_WEBHOOK_URL''"

text \<open>Line 94: \<open>args.webhook_url or os.environ.get("SLACK_WEBHOOK_URL")\<close>. The right
  operand of \<open>or\<close> is evaluated only when the left one is false.\<close>

definition resolve_webhook_url :: "world \<Rightarrow> ustr option \<Rightarrow> (ustr option) io" where
  "resolve_webhook_url w given =
     (if truthy given then return_io given
      else then_io (emit (ReadEnv env_key)) (return_io (environ w env_key)))"

text \<open>Lines 95--97.\<close>

definition no_webhook_url :: "unit io" where
  "no_webhook_url =
     then_io
       (emit (Stderr
          (u ''Error: No webhook URL provided. Use --webhook-url or set SLACK_WEBHOOK_URL env var.'')))
       (sys_exit 1)"

text \<open>Lines 100--106.\<close>

definition publish :: "world \<Rightarrow> pyobj \<Rightarrow> ustr \<Rightarrow> ustr \<Rightarrow> unit io" where
  "publish w pr webhook_url message =
     bind_io (post_to_slack w webhook_url message) (\<lambda>ok.
     if ok then
       bind_io (lift_exn (getitem pr (u ''number''))) (\<lambda>number.
       emit (Stdout ([emoji_check] @ u '' Posted PR #'' @ py_str number @
                     u '' merge announcement to Slack!'')))
     else
       then_io (emit (Stderr ([emoji_cross] @ u '' Failed to post to Slack.'')))
      (then_io (emit (Stdout ([nl] @ u ''Message was:'' @ [nl])))
      (then_io (emit (Stdout message))
      (sys_exit 1))))"

definition main :: "world \<Rightarrow> args \<Rightarrow> unit io" where
  "main w a =
     bind_io (fetch_pr w (arg_pr_number a) (arg_repo a)) (\<lambda>pr.
     bind_io (lift_exn (format_message pr (arg_summary a))) (\<lambda>message.
     if arg_dry_run a then
       then_io (emit (Stdout (u ''=== DRY RUN '' @ [em_dash] @ u '' Message preview ==='' @ [nl])))
      (then_io (emit (Stdout message))
      (emit (Stdout ([nl] @ u ''=== End preview ===''))))
     else
       bind_io (resolve_webhook_url w (arg_webhook_url a)) (\<lambda>webhook_url.
       case webhook_url of
         None \<Rightarrow> no_webhook_url
       | Some url \<Rightarrow> if url = [] then no_webhook_url else publish w pr url message)))"

section \<open>Notions used by the properties\<close>

text \<open>The canonical shape of a pull-request URL: \<open>https://host/owner/repo/pull/N\<close>.\<close>

definition canonical_url :: "ustr \<Rightarrow> ustr \<Rightarrow> ustr \<Rightarrow> ustr \<Rightarrow> ustr" where
  "canonical_url host owner repo number =
     u ''https://'' @ host @ u ''/'' @ owner @ u ''/'' @ repo @ u ''/pull/'' @ number"

text \<open>The fetch stage succeeded with the value \<open>pr\<close>: the command exited with status 0
  and \<open>json.loads\<close> returned \<open>pr\<close> from its output.\<close>

definition fetched :: "world \<Rightarrow> args \<Rightarrow> pyobj \<Rightarrow> bool" where
  "fetched w a pr =
     (case subprocess_run w (gh_command (arg_pr_number a) (arg_repo a)) of
        Inl e \<Rightarrow> False
      | Inr result \<Rightarrow> returncode result = 0 \<and> json_loads w (stdout result) = Inr pr)"

fun is_http_post :: "event \<Rightarrow> bool" where
  "is_http_post (HttpPost req) = True"
| "is_http_post _ = False"

fun is_read_env :: "event \<Rightarrow> bool" where
  "is_read_env (ReadEnv k) = True"
| "is_read_env _ = False"

text \<open>The exceptions the \<open>except\<close> clauses of \<open>post_to_slack\<close> catch: \<open>URLError\<close> and
  its subclass \<open>HTTPError\<close>.\<close>

fun is_url_error :: "exn \<Rightarrow> bool" where
  "is_url_error (HTTPError code reason) = True"
| "is_url_error (URLError reason) = True"
| "is_url_error _ = False"

text \<open>The texts of lines 96, 101, 103, 104, 88 and 90.\<close>

definition config_error_text :: ustr where
  "config_error_text =
     u ''Error: No webhook URL provided. Use --webhook-url or set SLACK_WEBHOOK_URL env var.''"

definition posted_text :: "pyval \<Rightarrow> ustr" where
  "posted_text number =
     [emoji_check] @ u '' Posted PR #'' @ py_str number @ u '' merge announcement to Slack!''"

definition failed_text :: ustr where
  "failed_text = [emoji_cross] @ u '' Failed to post to Slack.''"

definition message_was_text :: ustr where
  "message_was_text = [nl] @ u ''Message was:'' @ [nl]"

definition preview_header :: ustr where
  "preview_header = u ''=== DRY RUN '' @ [em_dash] @ u '' Message preview ==='' @ [nl]"

definition preview_footer :: ustr where
  "preview_footer = [nl] @ u ''=== End preview ===''"

subsection \<open>The scenario of the specification, for concrete runs\<close>

text \<open>Pull request 7 of \<open>acme/widgets\<close>, and a world in which the fetch command exits
  with status \<open>rc\<close>, the environment is \<open>env\<close> and the webhook answers \<open>outcome\<close>. As in
  Python, constructing a request for a URL without a scheme raises \<open>ValueError\<close>.\<close>

definition url_A :: ustr where
  "url_A = u ''https://github.com/acme/widgets/pull/7''"

definition dict_A :: "ustr \<rightharpoonup> pyval" where
  "dict_A = Map.empty
     (u ''number'' \<mapsto> PInt 7,
      u ''title'' \<mapsto> PStr (u ''Fix bug''),
      u ''url'' \<mapsto> PStr url_A,
      u ''headRefName'' \<mapsto> PStr (u ''fix-bug''),
      u ''baseRefName'' \<mapsto> PStr (u ''main''),
      u ''body'' \<mapsto> PStr [])"

definition pr_A :: pyobj where
  "pr_A = PyDict dict_A"

definition summary_A :: ustr where
  "summary_A = u ''Fixed the widget crash''"

definition message_A :: ustr where
  "message_A =
     join_lines (template_lines (u ''widgets'') 7 (u ''Fix bug'') url_A (u ''fix-bug'')
       (u ''main'') summary_A)"

text \<open>The same pull request with a URL of three segments.\<close>

definition pr_short_url :: pyobj where
  "pr_short_url = PyDict (dict_A (u ''url'' \<mapsto> PStr (u ''https://github.com'')))"

definition world_A :: "int \<Rightarrow> (ustr \<rightharpoonup> ustr) \<Rightarrow> exn + int \<Rightarrow> world" where
  "world_A rc env outcome =
     \<lparr> subprocess_run =
         (\<lambda>cmd. Inr \<lparr> returncode = rc, stdout = u ''{}'',
                       stderr = u ''no pull requests found'' @ [nl] \<rparr>),
       json_loads = (\<lambda>s. Inr pr_A),
       environ = env,
       Request_raises =
         (\<lambda>req. if req_url req = u ''not-a-url''
                then Some (ValueError (u ''unknown url type'')) else None),
       urlopen = (\<lambda>req. outcome) \<rparr>"

text \<open>The world in which the fetch succeeds and returns the record with the short URL.\<close>

definition world_short_url :: world where
  "world_short_url =
     (world_A 0 Map.empty (Inr 200)) \<lparr> json_loads := (\<lambda>s. Inr pr_short_url) \<rparr>"

definition args_A :: "bool \<Rightarrow> ustr option \<Rightarrow> args" where
  "args_A dry given =
     \<lparr> arg_pr_number = 7, arg_summary = summary_A, arg_repo = None,
       arg_webhook_url = given, arg_dry_run = dry \<rparr>"

definition hook_A :: ustr where
  "hook_A = u ''https://hooks.example.com/T/B/X''"

section \<open>Basic facts\<close>

lemma u_simps [simp]: "u [] = []" "u (c # cs) = of_char c # u cs"
  by (simp_all add: u_def)

lemma bind_exn_simps [simp]:
  "bind_exn (Inl e) f = Inl e" "bind_exn (Inr x) f = f x"
  by (simp_all add: bind_exn_def)

lemma bind_exn_Inr_iff: "(bind_exn m f = Inr y) = (\<exists>x. m = Inr x \<and> f x = Inr y)"
  by (cases m) auto

lemma getitem_Inr_iff: "(getitem pr k = Inr v) = (\<exists>m. pr = PyDict m \<and> m k = Some v)"
  by (cases pr) (auto split: option.splits)

lemma py_split_Inr_iff: "(py_split v c = Inr xs) = (\<exists>s. v = PStr s \<and> xs = split_on c s)"
  by (cases v) auto

lemma py_index_Inr_iff: "(py_index xs i = Inr x) = (i < length xs \<and> x = xs ! i)"
  by (auto simp: py_index_def)

lemmas io_defs =
  bind_io_def then_io_def emit_def return_io_def raise_io_def sys_exit_def lift_exn_def

lemma bind_io_prefix: "bind_io (t, Inr x) f = (t @ fst (f x), snd (f x))"
  by (simp add: bind_io_def split: prod.splits)

subsection \<open>\<open>split\<close>\<close>

lemma length_split_on: "length (split_on c s) = Suc (count_list s c)"
  by (induction s) (auto simp: Let_def)

lemma split_on_append: "c \<notin> set s \<Longrightarrow> split_on c (s @ c # t) = s # split_on c t"
  by (induction s) (auto simp: Let_def)

lemma split_on_sep_Cons: "split_on c (c # t) = [] # split_on c t"
  by simp

lemma split_on_canonical:
  assumes "slash \<notin> set host" "slash \<notin> set owner" "slash \<notin> set repo"
  shows "split_on slash (canonical_url host owner repo n)
    = u ''https:'' # [] # host # owner # repo # split_on slash (u ''pull/'' @ n)"
proof -
  let ?r = "u ''pull/'' @ n"
  have b: "slash \<notin> set (u ''https:'')" by (simp add: slash_def)
  have a: "canonical_url host owner repo n
    = u ''https:'' @ slash # (slash # (host @ slash # (owner @ slash # (repo @ slash # ?r))))"
    by (simp add: slash_def canonical_url_def)
  have "split_on slash
          (u ''https:'' @ slash # (slash # (host @ slash # (owner @ slash # (repo @ slash # ?r)))))
     = u ''https:'' #
         split_on slash (slash # (host @ slash # (owner @ slash # (repo @ slash # ?r))))"
    using b by (rule split_on_append)
  also have "split_on slash (slash # (host @ slash # (owner @ slash # (repo @ slash # ?r))))
     = [] # split_on slash (host @ slash # (owner @ slash # (repo @ slash # ?r)))"
    by (rule split_on_sep_Cons)
  also have "split_on slash (host @ slash # (owner @ slash # (repo @ slash # ?r)))
     = host # split_on slash (owner @ slash # (repo @ slash # ?r))"
    using assms(1) by (rule split_on_append)
  also have "split_on slash (owner @ slash # (repo @ slash # ?r))
     = owner # split_on slash (repo @ slash # ?r)"
    using assms(2) by (rule split_on_append)
  also have "split_on slash (repo @ slash # ?r) = repo # split_on slash ?r"
    using assms(3) by (rule split_on_append)
  finally show ?thesis unfolding a .
qed

subsection \<open>The scenario\<close>

lemma url_A_canonical:
  "canonical_url (u ''github.com'') (u ''acme'') (u ''widgets'') (u ''7'') = url_A"
  by (simp add: canonical_url_def url_A_def)

lemma split_on_url_A:
  "split_on slash url_A =
     [u ''https:'', [], u ''github.com'', u ''acme'', u ''widgets'', u ''pull'', u ''7'']"
proof -
  have "split_on slash (canonical_url (u ''github.com'') (u ''acme'') (u ''widgets'') (u ''7'')) =
     u ''https:'' # [] # u ''github.com'' # u ''acme'' # u ''widgets'' #
       split_on slash (u ''pull/'' @ u ''7'')"
    by (rule split_on_canonical) (simp_all add: slash_def)
  moreover have "split_on slash (u ''pull/'' @ u ''7'') = [u ''pull'', u ''7'']"
    by (simp add: slash_def)
  ultimately show ?thesis
    by (simp only: url_A_canonical)
qed

lemma dict_A_items:
  "dict_A (u ''number'') = Some (PInt 7)"
  "dict_A (u ''title'') = Some (PStr (u ''Fix bug''))"
  "dict_A (u ''url'') = Some (PStr url_A)"
  "dict_A (u ''headRefName'') = Some (PStr (u ''fix-bug''))"
  "dict_A (u ''baseRefName'') = Some (PStr (u ''main''))"
  by (simp_all add: dict_A_def)

lemma str_int_7: "str_int 7 = u ''7''"
  by (simp add: str_int_def str_nat.simps digit_char_def)

lemma repo_name_A: "repo_name pr_A = Inr (u ''widgets'')"
  by (simp add: repo_name_def pr_A_def dict_A_items py_index_def split_on_url_A del: u_simps)

lemma format_message_A: "format_message pr_A summary_A = Inr message_A"
  by (simp add: format_message_def repo_name_A message_A_def template_lines_def
      pr_A_def [symmetric] del: u_simps)
    (simp add: pr_A_def dict_A_items del: u_simps)

lemma fetched_A: "fetched (world_A 0 env outcome) (args_A dry given) pr_A"
  by (simp add: fetched_def world_A_def)

lemma format_message_args_A:
  "format_message pr_A (arg_summary (args_A dry given)) = Inr message_A"
  by (simp add: args_A_def format_message_A del: u_simps)

lemma not_dry_args_A: "\<not> arg_dry_run (args_A False given)"
  by (simp add: args_A_def)

lemma request_A_ok:
  "Request_raises (world_A rc env outcome) (slack_request hook_A message_A) = None"
  by (simp add: world_A_def slack_request_def hook_A_def)

subsection \<open>The stages of \<open>main\<close>\<close>

lemma fetch_pr_fetched:
  "fetched w a pr \<Longrightarrow>
   fetch_pr w (arg_pr_number a) (arg_repo a) =
     ([RunProcess (gh_command (arg_pr_number a) (arg_repo a))], Inr pr)"
  by (auto simp: fetched_def fetch_pr_def io_defs split: sum.splits)

lemma main_after_fetch:
  assumes "fetched w a pr" and "format_message pr (arg_summary a) = Inr msg"
    and "\<not> arg_dry_run a"
  shows "main w a =
     bind_io ([RunProcess (gh_command (arg_pr_number a) (arg_repo a))], Inr ()) (\<lambda>_.
     bind_io (resolve_webhook_url w (arg_webhook_url a)) (\<lambda>webhook_url.
       case webhook_url of
         None \<Rightarrow> no_webhook_url
       | Some url \<Rightarrow> if url = [] then no_webhook_url else publish w pr url msg))"
  using assms(2,3)
  by (simp add: main_def fetch_pr_fetched[OF assms(1)] io_defs del: u_simps)

lemma no_webhook_url_eq: "no_webhook_url = ([Stderr config_error_text], Inl (SystemExit 1))"
  by (simp add: no_webhook_url_def config_error_text_def io_defs del: u_simps)

lemma try_urlopen_other: "\<not> is_url_error e \<Longrightarrow> try_urlopen (Inl e) = raise_io e"
  by (cases e) simp_all

section \<open>The formatter\<close>

text \<open>
  Claim C1. For a PullRequest record with an integer \<open>number\<close> and text \<open>title\<close>, \<open>url\<close>,
  \<open>headRefName\<close> and \<open>baseRefName\<close>, whose \<open>url\<close> has the five segments of the data model,
  and for every summary, \<open>format_message\<close> returns exactly the five lines of the template
  of the specification, joined by newlines: the repository line with segment 4 of the
  \<open>url\<close>, the heading with number, \<open>url\<close> and title, the branch line, the summary label
  and \<open>>\<close> followed by the summary unchanged.
\<close>

theorem format_message_template:
  assumes "m (u ''number'') = Some (PInt number)"
    and "m (u ''title'') = Some (PStr title)"
    and "m (u ''url'') = Some (PStr url)"
    and "m (u ''headRefName'') = Some (PStr headRefName)"
    and "m (u ''baseRefName'') = Some (PStr baseRefName)"
    and "4 < length (split_on slash url)"
  shows "format_message (PyDict m) summary =
    Inr (join_lines (template_lines (split_on slash url ! 4) number title url
           headRefName baseRefName summary))"
  using assms
  by (simp add: format_message_def repo_name_def py_index_def template_lines_def del: u_simps)

theorem format_message_template_witness:
  "4 < length (split_on slash url_A) \<and> format_message pr_A summary_A = Inr message_A"
proof -
  have len: "4 < length (split_on slash url_A)"
    by (simp add: split_on_url_A)
  have seg: "split_on slash url_A ! 4 = u ''widgets''"
    by (simp add: split_on_url_A del: u_simps)
  from format_message_template [OF dict_A_items len, of summary_A]
  have "format_message pr_A summary_A = Inr message_A"
    by (simp only: seg pr_A_def message_A_def)
  with len show ?thesis by simp
qed

text \<open>
  Claim C4. For a URL \<open>https://host/owner/repo/pull/N\<close>, where host, owner and repo
  contain no \<open>/\<close>, the repository name that \<open>format_message\<close> extracts (segment 4 of the
  URL split on \<open>/\<close>) is \<open>repo\<close>.
\<close>

theorem repo_name_canonical_url:
  assumes "slash \<notin> set host" "slash \<notin> set owner" "slash \<notin> set repo"
    and "m (u ''url'') = Some (PStr (canonical_url host owner repo n))"
  shows "repo_name (PyDict m) = Inr repo"
  using assms(4)
  by (simp add: repo_name_def py_index_def split_on_canonical[OF assms(1-3)] del: u_simps)

theorem repo_name_canonical_url_witness:
  "repo_name pr_A = Inr (u ''widgets'')"
proof -
  have h: "slash \<notin> set (u ''github.com'')" "slash \<notin> set (u ''acme'')"
    "slash \<notin> set (u ''widgets'')"
    by (simp_all add: slash_def)
  have url: "dict_A (u ''url'') =
      Some (PStr (canonical_url (u ''github.com'') (u ''acme'') (u ''widgets'') (u ''7'')))"
    by (simp only: url_A_canonical dict_A_items)
  show ?thesis
    using repo_name_canonical_url
      [of "u ''github.com''" "u ''acme''" "u ''widgets''" dict_A "u ''7''", OF h url]
    unfolding pr_A_def .
qed

text \<open>
  Claim C5, as stated, fails: \<open>format_message\<close> does not succeed on every fetched value.
  On a record whose \<open>url\<close> is \<open>https://github.com\<close> the subscript \<open>[4]\<close> raises
  \<open>IndexError\<close>.
\<close>

theorem format_message_short_url_fails:
  "format_message pr_short_url summary_A = Inl IndexError"
  by (simp add: format_message_def repo_name_def py_index_def pr_short_url_def slash_def)

text \<open>
  Claim C5, amended. \<open>format_message\<close> succeeds exactly when the fetched value is a
  dictionary that has the keys \<open>number\<close>, \<open>title\<close>, \<open>headRefName\<close> and \<open>baseRefName\<close> and
  whose \<open>url\<close> is a string with at least four \<open>/\<close>, that is, at least five segments.
\<close>

theorem format_message_succeeds_iff:
  "(\<exists>msg. format_message pr summary = Inr msg) \<longleftrightarrow>
   (\<exists>m url. pr = PyDict m \<and> m (u ''url'') = Some (PStr url) \<and> 4 \<le> count_list url slash \<and>
      m (u ''number'') \<noteq> None \<and> m (u ''title'') \<noteq> None \<and>
      m (u ''headRefName'') \<noteq> None \<and> m (u ''baseRefName'') \<noteq> None)"
  by (auto simp add: format_message_def repo_name_def bind_exn_Inr_iff getitem_Inr_iff
      py_split_Inr_iff py_index_Inr_iff length_split_on simp del: u_simps)

theorem format_message_succeeds_iff_witness:
  "\<exists>msg. format_message pr_A summary_A = Inr msg"
proof -
  have "4 \<le> count_list url_A slash"
    using length_split_on [of slash url_A] by (simp add: split_on_url_A)
  then have "\<exists>m url. pr_A = PyDict m \<and> m (u ''url'') = Some (PStr url) \<and>
      4 \<le> count_list url slash \<and>
      m (u ''number'') \<noteq> None \<and> m (u ''title'') \<noteq> None \<and>
      m (u ''headRefName'') \<noteq> None \<and> m (u ''baseRefName'') \<noteq> None"
    by (simp add: pr_A_def dict_A_items del: u_simps)
  then show ?thesis
    by (simp only: format_message_succeeds_iff [of pr_A summary_A])
qed

section \<open>The publisher\<close>

text \<open>
  Claim C2. \<open>post_to_slack\<close> returns \<open>True\<close> if and only if the request was sent and the
  response has status 200. For every other status of the response it prints the status
  to the error stream and returns \<open>False\<close>; so it does when the library reports the status
  through \<open>HTTPError\<close>. No exception is raised in either case.
\<close>

theorem post_to_slack_true_iff_200:
  "(snd (post_to_slack w url msg) = Inr True \<longleftrightarrow>
      Request_raises w (slack_request url msg) = None \<and> urlopen w (slack_request url msg) = Inr 200)
   \<and> (\<forall>status. Request_raises w (slack_request url msg) = None \<and>
         urlopen w (slack_request url msg) = Inr status \<and> status \<noteq> 200 \<longrightarrow>
         post_to_slack w url msg =
           ([HttpPost (slack_request url msg), Stderr (u ''Slack returned status '' @ str_int status)],
            Inr False))
   \<and> (\<forall>code reason. Request_raises w (slack_request url msg) = None \<and>
         urlopen w (slack_request url msg) = Inl (HTTPError code reason) \<longrightarrow>
         post_to_slack w url msg =
           ([HttpPost (slack_request url msg),
             Stderr (u ''Slack webhook error: '' @ str_int code @ u '' '' @ reason)],
            Inr False))"
proof -
  let ?req = "slack_request url msg"
  have 1: "snd (post_to_slack w url msg) = Inr True \<longleftrightarrow>
      Request_raises w ?req = None \<and> urlopen w ?req = Inr 200"
  proof (cases "Request_raises w ?req")
    case None
    then show ?thesis
      by (cases "urlopen w ?req" rule: try_urlopen.cases)
         (auto simp: post_to_slack_def io_defs simp del: u_simps)
  next
    case (Some e)
    then show ?thesis by (simp add: post_to_slack_def io_defs)
  qed
  have 2: "\<forall>status. Request_raises w ?req = None \<and> urlopen w ?req = Inr status \<and> status \<noteq> 200 \<longrightarrow>
         post_to_slack w url msg =
           ([HttpPost ?req, Stderr (u ''Slack returned status '' @ str_int status)], Inr False)"
    by (simp add: post_to_slack_def io_defs del: u_simps)
  have 3: "\<forall>code reason. Request_raises w ?req = None \<and>
         urlopen w ?req = Inl (HTTPError code reason) \<longrightarrow>
         post_to_slack w url msg =
           ([HttpPost ?req, Stderr (u ''Slack webhook error: '' @ str_int code @ u '' '' @ reason)],
            Inr False)"
    by (simp add: post_to_slack_def io_defs del: u_simps)
  from 1 2 3 show ?thesis by blast
qed

theorem post_to_slack_true_iff_200_witness:
  "post_to_slack (world_A 0 Map.empty (Inr 201)) hook_A message_A =
     ([HttpPost (slack_request hook_A message_A),
       Stderr (u ''Slack returned status '' @ str_int 201)], Inr False)
   \<and> snd (post_to_slack (world_A 0 Map.empty (Inr 200)) hook_A message_A) = Inr True"
proof -
  have a: "urlopen (world_A 0 Map.empty (Inr 201)) (slack_request hook_A message_A) = Inr 201"
    and b: "urlopen (world_A 0 Map.empty (Inr 200)) (slack_request hook_A message_A) = Inr 200"
    by (simp_all add: world_A_def)
  have c: "(201::int) \<noteq> 200" by simp
  from post_to_slack_true_iff_200 [of "world_A 0 Map.empty (Inr 201)" hook_A message_A]
    request_A_ok [of 0 Map.empty "Inr 201"] a c
  have "post_to_slack (world_A 0 Map.empty (Inr 201)) hook_A message_A =
     ([HttpPost (slack_request hook_A message_A),
       Stderr (u ''Slack returned status '' @ str_int 201)], Inr False)"
    by blast
  moreover
  from post_to_slack_true_iff_200 [of "world_A 0 Map.empty (Inr 200)" hook_A message_A]
    request_A_ok [of 0 Map.empty "Inr 200"] b
  have "snd (post_to_slack (world_A 0 Map.empty (Inr 200)) hook_A message_A) = Inr True"
    by blast
  ultimately show ?thesis by blast
qed

text \<open>
  Claim C3, as stated, fails: an exception can leave \<open>post_to_slack\<close>. For the
  destination \<open>not-a-url\<close> the constructor of the request raises \<open>ValueError\<close> before the
  \<open>try\<close> statement is entered; nothing is posted and the exception reaches the caller.
\<close>

theorem post_to_slack_exception_escapes:
  "post_to_slack (world_A 0 Map.empty (Inr 200)) (u ''not-a-url'') message_A =
     ([], Inl (Uncaught (ValueError (u ''unknown url type''))))"
  by (simp add: post_to_slack_def world_A_def slack_request_def io_defs)

text \<open>
  Claim C3, amended. The request has the destination URL, the body \<open>{"text": message}\<close>,
  the header \<open>Content-Type: application/json\<close> and the method POST. When the request can
  be constructed, exactly one POST is made. The function returns a boolean whenever
  \<open>urlopen\<close> returns a response or raises \<open>HTTPError\<close> or \<open>URLError\<close>: in these two cases it
  prints to the error stream and returns \<open>False\<close>. An exception of any other class, from
  \<open>urlopen\<close> or from the constructor of the request, goes on to the caller.
\<close>

theorem post_to_slack_outcomes:
  "req_url (slack_request url msg) = url
   \<and> req_data (slack_request url msg) = JsonUtf8 [(u ''text'', msg)]
   \<and> req_headers (slack_request url msg) = [(u ''Content-Type'', u ''application/json'')]
   \<and> req_method (slack_request url msg) = u ''POST''
   \<and> (Request_raises w (slack_request url msg) = None \<longrightarrow>
        filter is_http_post (fst (post_to_slack w url msg)) = [HttpPost (slack_request url msg)])
   \<and> (\<forall>status. Request_raises w (slack_request url msg) = None \<and>
         urlopen w (slack_request url msg) = Inr status \<longrightarrow>
         snd (post_to_slack w url msg) = Inr (status = 200))
   \<and> (\<forall>code reason. Request_raises w (slack_request url msg) = None \<and>
         urlopen w (slack_request url msg) = Inl (HTTPError code reason) \<longrightarrow>
         post_to_slack w url msg =
           ([HttpPost (slack_request url msg),
             Stderr (u ''Slack webhook error: '' @ str_int code @ u '' '' @ reason)],
            Inr False))
   \<and> (\<forall>reason. Request_raises w (slack_request url msg) = None \<and>
         urlopen w (slack_request url msg) = Inl (URLError reason) \<longrightarrow>
         post_to_slack w url msg =
           ([HttpPost (slack_request url msg), Stderr (u ''Network error: '' @ reason)],
            Inr False))
   \<and> (\<forall>e. Request_raises w (slack_request url msg) = None \<and>
         urlopen w (slack_request url msg) = Inl e \<and> \<not> is_url_error e \<longrightarrow>
         post_to_slack w url msg = ([HttpPost (slack_request url msg)], Inl (Uncaught e)))
   \<and> (\<forall>e. Request_raises w (slack_request url msg) = Some e \<longrightarrow>
         post_to_slack w url msg = ([], Inl (Uncaught e)))"
proof -
  let ?req = "slack_request url msg"
  have r: "req_url ?req = url \<and> req_data ?req = JsonUtf8 [(u ''text'', msg)]
     \<and> req_headers ?req = [(u ''Content-Type'', u ''application/json'')]
     \<and> req_method ?req = u ''POST''"
    by (simp add: slack_request_def del: u_simps)
  have one: "Request_raises w ?req = None \<longrightarrow>
        filter is_http_post (fst (post_to_slack w url msg)) = [HttpPost ?req]"
    by (cases "urlopen w ?req" rule: try_urlopen.cases)
       (auto simp: post_to_slack_def io_defs simp del: u_simps)
  have st: "\<forall>status. Request_raises w ?req = None \<and> urlopen w ?req = Inr status \<longrightarrow>
         snd (post_to_slack w url msg) = Inr (status = 200)"
    by (simp add: post_to_slack_def io_defs del: u_simps)
  have he: "\<forall>code reason. Request_raises w ?req = None \<and>
         urlopen w ?req = Inl (HTTPError code reason) \<longrightarrow>
         post_to_slack w url msg =
           ([HttpPost ?req, Stderr (u ''Slack webhook error: '' @ str_int code @ u '' '' @ reason)],
            Inr False)"
    by (simp add: post_to_slack_def io_defs del: u_simps)
  have ue: "\<forall>reason. Request_raises w ?req = None \<and> urlopen w ?req = Inl (URLError reason) \<longrightarrow>
         post_to_slack w url msg =
           ([HttpPost ?req, Stderr (u ''Network error: '' @ reason)], Inr False)"
    by (simp add: post_to_slack_def io_defs del: u_simps)
  have ot: "\<forall>e. Request_raises w ?req = None \<and> urlopen w ?req = Inl e \<and> \<not> is_url_error e \<longrightarrow>
         post_to_slack w url msg = ([HttpPost ?req], Inl (Uncaught e))"
    by (simp add: post_to_slack_def try_urlopen_other io_defs del: u_simps)
  have rq: "\<forall>e. Request_raises w ?req = Some e \<longrightarrow> post_to_slack w url msg = ([], Inl (Uncaught e))"
    by (simp add: post_to_slack_def io_defs del: u_simps)
  from r one st he ue ot rq show ?thesis by blast
qed

theorem post_to_slack_outcomes_witness:
  "post_to_slack (world_A 0 Map.empty (Inl (URLError (u ''Connection refused'')))) hook_A message_A =
     ([HttpPost (slack_request hook_A message_A),
       Stderr (u ''Network error: '' @ u ''Connection refused'')], Inr False)"
proof -
  let ?w = "world_A 0 Map.empty (Inl (URLError (u ''Connection refused'')))"
  have a: "urlopen ?w (slack_request hook_A message_A) = Inl (URLError (u ''Connection refused''))"
    by (simp add: world_A_def del: u_simps)
  from post_to_slack_outcomes [of hook_A message_A ?w]
    request_A_ok [of 0 Map.empty "Inl (URLError (u ''Connection refused''))"] a
  show ?thesis by blast
qed

section \<open>The program\<close>

text \<open>
  Claim C6. When the fetch command exits with a non-zero status, the program prints the
  error output of the command (stripped, after \<open>Error fetching PR #N:\<close>) to the error
  stream and exits with status 1. Nothing else happens: the command is run once, no
  message is formatted or printed, and nothing is posted.
\<close>

theorem main_fetch_failure:
  assumes "subprocess_run w (gh_command (arg_pr_number a) (arg_repo a)) = Inr result"
    and "returncode result \<noteq> 0"
  shows "main w a =
      ([RunProcess (gh_command (arg_pr_number a) (arg_repo a)),
        Stderr (u ''Error fetching PR #'' @ str_int (arg_pr_number a) @ u '': '' @
                py_strip (stderr result))],
       Inl (SystemExit 1))
    \<and> exit_code (main w a) = 1"
  using assms
  by (simp add: main_def fetch_pr_def io_defs exit_code_def del: u_simps)

theorem main_fetch_failure_witness:
  "main (world_A 1 Map.empty (Inr 200)) (args_A False None) =
     ([RunProcess (gh_command 7 None),
       Stderr (u ''Error fetching PR #'' @ str_int 7 @ u '': '' @ u ''no pull requests found'')],
      Inl (SystemExit 1))
   \<and> exit_code (main (world_A 1 Map.empty (Inr 200)) (args_A False None)) = 1"
proof -
  let ?w = "world_A 1 Map.empty (Inr 200)" and ?a = "args_A False None"
  let ?r = "\<lparr> returncode = 1, stdout = u ''{}'', stderr = u ''no pull requests found'' @ [nl] \<rparr>"
  have run: "subprocess_run ?w (gh_command (arg_pr_number ?a) (arg_repo ?a)) = Inr ?r"
    by (simp add: world_A_def del: u_simps)
  have rc: "returncode ?r \<noteq> 0" by simp
  have strip: "py_strip (stderr ?r) = u ''no pull requests found''"
    by (simp add: py_strip_def is_space_def nl_def)
  have a: "arg_pr_number ?a = 7" "arg_repo ?a = None"
    by (simp_all add: args_A_def)
  show ?thesis
    using main_fetch_failure [OF run rc] unfolding strip a .
qed

text \<open>
  Claim C7. Without dry run, after a successful fetch: when \<open>--webhook-url\<close> is not given
  and \<open>SLACK_WEBHOOK_URL\<close> is not set, the program prints the configuration error to the
  error stream and exits with status 1, and nothing is posted. A non-empty
  \<open>--webhook-url\<close> is used without reading the environment; the environment variable is
  read and used only when the argument is absent.
\<close>

theorem main_missing_webhook_url:
  assumes "fetched w a pr" and "format_message pr (arg_summary a) = Inr msg"
    and "\<not> arg_dry_run a"
  shows "(arg_webhook_url a = None \<and> environ w env_key = None \<longrightarrow>
            main w a =
              ([RunProcess (gh_command (arg_pr_number a) (arg_repo a)), ReadEnv env_key,
                Stderr config_error_text], Inl (SystemExit 1))
            \<and> exit_code (main w a) = 1)
     \<and> (\<forall>url. arg_webhook_url a = Some url \<and> url \<noteq> [] \<longrightarrow>
            main w a =
              (RunProcess (gh_command (arg_pr_number a) (arg_repo a)) # fst (publish w pr url msg),
               snd (publish w pr url msg)))
     \<and> (\<forall>url. arg_webhook_url a = None \<and> environ w env_key = Some url \<and> url \<noteq> [] \<longrightarrow>
            main w a =
              (RunProcess (gh_command (arg_pr_number a) (arg_repo a)) # ReadEnv env_key #
                 fst (publish w pr url msg),
               snd (publish w pr url msg)))"
  unfolding main_after_fetch[OF assms]
  by (auto simp: resolve_webhook_url_def no_webhook_url_eq bind_io_prefix exit_code_def
        return_io_def then_io_def emit_def simp del: u_simps)

theorem main_missing_webhook_url_witness:
  "main (world_A 0 Map.empty (Inr 200)) (args_A False None) =
     ([RunProcess (gh_command 7 None), ReadEnv env_key, Stderr config_error_text],
      Inl (SystemExit 1))"
proof -
  let ?w = "world_A 0 Map.empty (Inr 200)" and ?a = "args_A False None"
  have e: "arg_webhook_url ?a = None \<and> environ ?w env_key = None"
    by (simp add: args_A_def world_A_def)
  have a: "arg_pr_number ?a = 7" "arg_repo ?a = None"
    by (simp_all add: args_A_def)
  from main_missing_webhook_url [OF fetched_A [of Map.empty "Inr 200" False None]
      format_message_args_A [of False None] not_dry_args_A [of None]] e
  have "main ?w ?a =
     ([RunProcess (gh_command (arg_pr_number ?a) (arg_repo ?a)), ReadEnv env_key,
       Stderr config_error_text], Inl (SystemExit 1))"
    by blast
  then show ?thesis unfolding a .
qed

text \<open>
  Claim C10. Without dry run, after a successful fetch: an empty \<open>--webhook-url\<close> makes
  the program read \<open>SLACK_WEBHOOK_URL\<close> and use its value; and when the value resolved is
  empty or absent (the argument absent or empty, the variable empty or unset), the
  program prints the configuration error and exits with status 1 without posting.
\<close>

theorem main_empty_webhook_url:
  assumes "fetched w a pr" and "format_message pr (arg_summary a) = Inr msg"
    and "\<not> arg_dry_run a"
  shows "(arg_webhook_url a = Some [] \<longrightarrow>
            resolve_webhook_url w (arg_webhook_url a) = ([ReadEnv env_key], Inr (environ w env_key)))
     \<and> (\<forall>url. arg_webhook_url a = Some [] \<and> environ w env_key = Some url \<and> url \<noteq> [] \<longrightarrow>
            main w a =
              (RunProcess (gh_command (arg_pr_number a) (arg_repo a)) # ReadEnv env_key #
                 fst (publish w pr url msg),
               snd (publish w pr url msg)))
     \<and> (\<not> truthy (arg_webhook_url a) \<and> environ w env_key = Some [] \<longrightarrow>
            main w a =
              ([RunProcess (gh_command (arg_pr_number a) (arg_repo a)), ReadEnv env_key,
                Stderr config_error_text], Inl (SystemExit 1))
            \<and> exit_code (main w a) = 1)
     \<and> (arg_webhook_url a = Some [] \<and> environ w env_key = None \<longrightarrow>
            main w a =
              ([RunProcess (gh_command (arg_pr_number a) (arg_repo a)), ReadEnv env_key,
                Stderr config_error_text], Inl (SystemExit 1))
            \<and> exit_code (main w a) = 1)"
  unfolding main_after_fetch[OF assms]
  by (auto simp: resolve_webhook_url_def no_webhook_url_eq bind_io_prefix exit_code_def
        return_io_def then_io_def emit_def simp del: u_simps)

theorem main_empty_webhook_url_witness:
  "main (world_A 0 [env_key \<mapsto> []] (Inr 200)) (args_A False (Some [])) =
     ([RunProcess (gh_command 7 None), ReadEnv env_key, Stderr config_error_text],
      Inl (SystemExit 1))"
proof -
  let ?w = "world_A 0 [env_key \<mapsto> []] (Inr 200)" and ?a = "args_A False (Some [])"
  have e: "\<not> truthy (arg_webhook_url ?a) \<and> environ ?w env_key = Some []"
    by (simp add: args_A_def world_A_def)
  have a: "arg_pr_number ?a = 7" "arg_repo ?a = None"
    by (simp_all add: args_A_def)
  from main_empty_webhook_url [OF fetched_A [of "[env_key \<mapsto> []]" "Inr 200" False "Some []"]
      format_message_args_A [of False "Some []"] not_dry_args_A [of "Some []"]] e
  have "main ?w ?a =
     ([RunProcess (gh_command (arg_pr_number ?a) (arg_repo ?a)), ReadEnv env_key,
       Stderr config_error_text], Inl (SystemExit 1))"
    by blast
  then show ?thesis unfolding a .
qed

text \<open>
  Claim C8. Without dry run, after a successful fetch and with a webhook URL resolved:
  when \<open>post_to_slack\<close> returns \<open>False\<close>, the program prints the failure notice to the
  error stream, prints \<open>Message was:\<close> and the whole message to standard output, and
  exits with status 1; when it returns \<open>True\<close>, the program prints the confirmation
  with the number of the pull request and exits with status 0.
\<close>

theorem main_publish_result:
  assumes "fetched w a pr" and "format_message pr (arg_summary a) = Inr msg"
    and "\<not> arg_dry_run a"
    and "resolve_webhook_url w (arg_webhook_url a) = (t1, Inr (Some url))" and "url \<noteq> []"
    and "post_to_slack w url msg = (t2, Inr ok)"
  shows "(\<not> ok \<longrightarrow>
            main w a =
              (RunProcess (gh_command (arg_pr_number a) (arg_repo a)) # t1 @ t2 @
                 [Stderr failed_text, Stdout message_was_text, Stdout msg],
               Inl (SystemExit 1))
            \<and> exit_code (main w a) = 1)
     \<and> (ok \<longrightarrow>
            (\<exists>number. getitem pr (u ''number'') = Inr number \<and>
               main w a =
                 (RunProcess (gh_command (arg_pr_number a) (arg_repo a)) # t1 @ t2 @
                    [Stdout (posted_text number)], Inr ()))
            \<and> exit_code (main w a) = 0)"
proof -
  from assms(2) obtain number where n: "getitem pr (u ''number'') = Inr number"
    by (auto simp: format_message_def bind_exn_Inr_iff simp del: u_simps)
  show ?thesis
    unfolding main_after_fetch[OF assms(1-3)] assms(4)
    using assms(5,6) n
    by (simp add: publish_def io_defs exit_code_def failed_text_def message_was_text_def
        posted_text_def del: u_simps)
qed

theorem main_publish_result_witness:
  "main (world_A 0 Map.empty (Inr 500)) (args_A False (Some hook_A)) =
     (RunProcess (gh_command 7 None) # [] @
        [HttpPost (slack_request hook_A message_A),
         Stderr (u ''Slack returned status '' @ str_int 500)] @
        [Stderr failed_text, Stdout message_was_text, Stdout message_A],
      Inl (SystemExit 1))
   \<and> exit_code (main (world_A 0 Map.empty (Inr 500)) (args_A False (Some hook_A))) = 1"
proof -
  let ?w = "world_A 0 Map.empty (Inr 500)" and ?a = "args_A False (Some hook_A)"
  have res: "resolve_webhook_url ?w (arg_webhook_url ?a) = ([], Inr (Some hook_A))"
    by (simp add: resolve_webhook_url_def args_A_def hook_A_def io_defs)
  have ne: "hook_A \<noteq> []" by (simp add: hook_A_def)
  have p500: "post_to_slack ?w hook_A message_A =
     ([HttpPost (slack_request hook_A message_A),
       Stderr (u ''Slack returned status '' @ str_int 500)], Inr False)"
    by (simp add: post_to_slack_def request_A_ok Let_def del: u_simps)
       (simp add: world_A_def io_defs)
  have a: "arg_pr_number ?a = 7" "arg_repo ?a = None"
    by (simp_all add: args_A_def)
  from main_publish_result [OF fetched_A [of Map.empty "Inr 500" False "Some hook_A"]
      format_message_args_A [of False "Some hook_A"] not_dry_args_A [of "Some hook_A"]
      res ne p500]
  have "main ?w ?a =
     (RunProcess (gh_command (arg_pr_number ?a) (arg_repo ?a)) # [] @
        [HttpPost (slack_request hook_A message_A),
         Stderr (u ''Slack returned status '' @ str_int 500)] @
        [Stderr failed_text, Stdout message_was_text, Stdout message_A],
      Inl (SystemExit 1))
   \<and> exit_code (main ?w ?a) = 1"
    by blast
  then show ?thesis unfolding a .
qed

text \<open>
  Claim C9, as stated, fails: a dry run whose fetch succeeded need not print the preview
  and exit with status 0. The message is formatted on line 85, before the test of
  \<open>--dry-run\<close> on line 87; when the fetch returns the record whose \<open>url\<close> is
  \<open>https://github.com\<close>, \<open>format_message\<close> raises \<open>IndexError\<close>, nothing is printed and
  the exit status is 1.
\<close>

theorem main_dry_run_unformattable:
  "arg_dry_run (args_A True None)
   \<and> fetched world_short_url (args_A True None) pr_short_url
   \<and> main world_short_url (args_A True None) =
       ([RunProcess (gh_command 7 None)], Inl (Uncaught IndexError))
   \<and> exit_code (main world_short_url (args_A True None)) = 1"
proof -
  let ?a = "args_A True None"
  have d: "arg_dry_run ?a" by (simp add: args_A_def)
  have f: "fetched world_short_url ?a pr_short_url"
    by (simp add: fetched_def world_short_url_def world_A_def)
  have e: "format_message pr_short_url (arg_summary ?a) = Inl IndexError"
    by (simp add: format_message_def repo_name_def py_index_def pr_short_url_def slash_def)
  have a: "arg_pr_number ?a = 7" "arg_repo ?a = None"
    by (simp_all add: args_A_def)
  have m: "main world_short_url ?a =
      ([RunProcess (gh_command (arg_pr_number ?a) (arg_repo ?a))], Inl (Uncaught IndexError))"
    by (simp add: main_def fetch_pr_fetched [OF f] e io_defs del: u_simps)
  then have x: "exit_code (main world_short_url ?a) = 1"
    by (simp add: exit_code_def)
  from d f m x show ?thesis unfolding a by blast
qed

text \<open>
  Claim C9, amended. With dry run, no run of the program posts anything or reads the
  environment, and the run does not depend on \<open>--webhook-url\<close>, on the environment or on
  the HTTP library. After a successful fetch of a value that \<open>format_message\<close> accepts,
  the program prints the message between the two preview markers and exits with status
  0. After a successful fetch of a value on which \<open>format_message\<close> raises, the exception
  ends the run: nothing is printed and the exit status is 1.
\<close>

theorem main_dry_run:
  assumes "arg_dry_run a"
  shows "(\<forall>e \<in> set (fst (main w a)). \<not> is_http_post e \<and> \<not> is_read_env e)
     \<and> main (w\<lparr>environ := env', Request_raises := rr', urlopen := uo'\<rparr>)
            (a\<lparr>arg_webhook_url := given'\<rparr>) = main w a
     \<and> (\<forall>pr msg. fetched w a pr \<and> format_message pr (arg_summary a) = Inr msg \<longrightarrow>
           main w a =
             ([RunProcess (gh_command (arg_pr_number a) (arg_repo a)),
               Stdout preview_header, Stdout msg, Stdout preview_footer], Inr ())
           \<and> exit_code (main w a) = 0)
     \<and> (\<forall>pr e. fetched w a pr \<and> format_message pr (arg_summary a) = Inl e \<longrightarrow>
           main w a =
             ([RunProcess (gh_command (arg_pr_number a) (arg_repo a))], Inl (Uncaught e))
           \<and> exit_code (main w a) = 1)"
proof -
  have 1: "\<forall>e \<in> set (fst (main w a)). \<not> is_http_post e \<and> \<not> is_read_env e"
    using assms
    by (auto simp: main_def fetch_pr_def io_defs Let_def simp del: u_simps
        split: sum.splits prod.splits if_splits)
  have 2: "main (w\<lparr>environ := env', Request_raises := rr', urlopen := uo'\<rparr>)
            (a\<lparr>arg_webhook_url := given'\<rparr>) = main w a"
    using assms by (simp add: main_def fetch_pr_def Let_def del: u_simps cong: if_cong)
  have 3: "\<forall>pr msg. fetched w a pr \<and> format_message pr (arg_summary a) = Inr msg \<longrightarrow>
           main w a =
             ([RunProcess (gh_command (arg_pr_number a) (arg_repo a)),
               Stdout preview_header, Stdout msg, Stdout preview_footer], Inr ())
           \<and> exit_code (main w a) = 0"
    using assms
    by (auto simp: main_def fetch_pr_fetched io_defs exit_code_def preview_header_def
        preview_footer_def simp del: u_simps)
  have 4: "\<forall>pr e. fetched w a pr \<and> format_message pr (arg_summary a) = Inl e \<longrightarrow>
           main w a =
             ([RunProcess (gh_command (arg_pr_number a) (arg_repo a))], Inl (Uncaught e))
           \<and> exit_code (main w a) = 1"
    by (auto simp: main_def fetch_pr_fetched io_defs exit_code_def simp del: u_simps)
  from 1 2 3 4 show ?thesis by blast
qed

theorem main_dry_run_witness:
  "main (world_A 0 Map.empty (Inr 200)) (args_A True None) =
     ([RunProcess (gh_command 7 None), Stdout preview_header, Stdout message_A,
       Stdout preview_footer], Inr ())
   \<and> exit_code (main (world_A 0 Map.empty (Inr 200)) (args_A True None)) = 0"
proof -
  let ?w = "world_A 0 Map.empty (Inr 200)" and ?a = "args_A True None"
  have d: "arg_dry_run ?a" by (simp add: args_A_def)
  have "fetched ?w ?a pr_A \<and> format_message pr_A (arg_summary ?a) = Inr message_A \<longrightarrow>
      main ?w ?a =
        ([RunProcess (gh_command (arg_pr_number ?a) (arg_repo ?a)),
          Stdout preview_header, Stdout message_A, Stdout preview_footer], Inr ())
      \<and> exit_code (main ?w ?a) = 0"
    using main_dry_run [OF d, of ?w] by blast
  with fetched_A [of Map.empty "Inr 200" True None] format_message_args_A [of True None]
  have "main ?w ?a =
        ([RunProcess (gh_command (arg_pr_number ?a) (arg_repo ?a)),
          Stdout preview_header, Stdout message_A, Stdout preview_footer], Inr ())
      \<and> exit_code (main ?w ?a) = 0"
    by blast
  moreover have a: "arg_pr_number ?a = 7" "arg_repo ?a = None" by (simp_all add: args_A_def)
  ultimately show ?thesis unfolding a by blast
qed

end
